theory Spec2Isabelle
  imports Main "HOL-Library.Multiset" "HOL-Library.Char_ord" "HOL-Library.List_Lexorder"
begin

section \<open>The student service: data\<close>

text \<open>
  The service of \<^verbatim>\<open>index.js\<close> has five routes over one table, \<^verbatim>\<open>students\<close>, reached
  through the connection pool of \<^verbatim>\<open>databaseConnection.js\<close>. Each handler is embedded as a
  function from the request and the state of the store and the pool to the response and
  the new state. The database engine and the pool are not part of the repository: the
  model gives each SQL statement of the source its meaning on a list of rows, and lets an
  environment say, request by request, whether \<^verbatim>\<open>pool.connect()\<close> or
  \<^verbatim>\<open>client.query(...)\<close> rejects for a reason that the model of the statement does not
  decide itself (store unreachable, a dropped connection).

  A field of a JSON body is absent (\<^verbatim>\<open>undefined\<close> after destructuring), \<^verbatim>\<open>null\<close>, or a value.
  The values are taken at the types of the table's columns: text for \<^verbatim>\<open>name\<close>,
  \<^verbatim>\<open>rollnumber\<close>, \<^verbatim>\<open>city\<close>, an integer for \<^verbatim>\<open>age\<close>. The lines the handlers write to
  the console and the root route, which reads neither the store nor the pool, are left
  out.
\<close>

datatype 'a field = Absent | Null | Val 'a

text \<open>JavaScript's \<^verbatim>\<open>!\<close> on a field, as in \<^verbatim>\<open>!name\<close> and \<^verbatim>\<open>!age\<close>: true on the falsy
  values, which are \<^verbatim>\<open>undefined\<close>, \<^verbatim>\<open>null\<close>, the empty string and the number zero.\<close>

fun falsy_text :: "string field \<Rightarrow> bool" where
  "falsy_text (Val s) = (s = [])"
| "falsy_text _ = True"

fun falsy_num :: "int field \<Rightarrow> bool" where
  "falsy_num (Val n) = (n = 0)"
| "falsy_num _ = True"

text \<open>A query parameter: the driver sends \<^verbatim>\<open>undefined\<close> and \<^verbatim>\<open>null\<close> alike as SQL NULL.\<close>

fun param :: "'a field \<Rightarrow> 'a option" where
  "param (Val v) = Some v"
| "param _ = None"

text \<open>The request body, \<^verbatim>\<open>req.body\<close>: the fields the handlers destructure.\<close>

record body =
  b_name :: "string field"
  b_age :: "int field"
  b_rollnumber :: "string field"
  b_city :: "string field"

text \<open>A row of the table created by \<^verbatim>\<open>initTable\<close>:
  \<^verbatim>\<open>id SERIAL PRIMARY KEY, name VARCHAR(100) NOT NULL, age INTEGER NOT NULL,
  rollnumber VARCHAR(50) UNIQUE NOT NULL, city VARCHAR(100) NOT NULL,
  created_at TIMESTAMP DEFAULT CURRENT_TIMESTAMP\<close>.
  The column \<^verbatim>\<open>id\<close> is the field \<open>id_col\<close>; a timestamp is a number.\<close>

record student =
  id_col :: nat
  name :: string
  age :: int
  rollnumber :: string
  city :: string
  created_at :: nat

text \<open>An error thrown by the pool or the driver: \<^verbatim>\<open>err.code\<close> (absent on some errors) and
  \<^verbatim>\<open>err.message\<close>.\<close>

datatype dberror = DbError (code: "string option") (err_message: string)

definition unique_violation :: dberror where
  "unique_violation =
     DbError (Some ''23505'') ''duplicate key value violates unique constraint''"

definition not_null_violation :: dberror where
  "not_null_violation =
     DbError (Some ''23502'') ''null value violates not-null constraint''"

text \<open>The state: the rows of \<^verbatim>\<open>students\<close> in the order they were inserted, the next value
  of the \<^verbatim>\<open>id\<close> sequence, and the number of connections checked out of the pool and not
  yet released.\<close>

record state =
  students :: "student list"
  next_id :: nat
  checked_out :: nat

text \<open>The environment of one request: the error with which \<^verbatim>\<open>pool.connect()\<close> rejects, if
  it does; the error with which the store rejects the statement for a reason other than
  those the statement's model decides from the parameters and the rows, if it does; the
  store's clock.\<close>

record env =
  connect_fault :: "dberror option"
  query_fault :: "dberror option"
  now :: nat

definition healthy :: "env \<Rightarrow> bool" where
  "healthy e = (connect_fault e = None \<and> query_fault e = None)"

section \<open>The pool and the statements\<close>

text \<open>\<^verbatim>\<open>pool.connect()\<close>: rejects with the environment's error, or checks a connection out.\<close>

definition pool_connect :: "env \<Rightarrow> state \<Rightarrow> dberror + state" where
  "pool_connect e st =
     (case connect_fault e of
        Some err \<Rightarrow> Inl err
      | None \<Rightarrow> Inr (st\<lparr>checked_out := checked_out st + 1\<rparr>))"

text \<open>\<^verbatim>\<open>client.release()\<close>, called only on a connection obtained from \<open>pool_connect\<close>.\<close>

definition release :: "state \<Rightarrow> state" where
  "release st = st\<lparr>checked_out := checked_out st - 1\<rparr>"

text \<open>\<^verbatim>\<open>SELECT * FROM students ORDER BY rollnumber\<close>\<close>

definition select_all :: "env \<Rightarrow> state \<Rightarrow> (dberror + student list) \<times> state" where
  "select_all e st =
     (case query_fault e of
        Some err \<Rightarrow> (Inl err, st)
      | None \<Rightarrow> (Inr (sort_key rollnumber (students st)), st))"

text \<open>\<^verbatim>\<open>SELECT * FROM students WHERE rollnumber = $1\<close>\<close>

definition select_one :: "env \<Rightarrow> string \<Rightarrow> state \<Rightarrow> (dberror + student list) \<times> state" where
  "select_one e rn st =
     (case query_fault e of
        Some err \<Rightarrow> (Inl err, st)
      | None \<Rightarrow> (Inr (filter (\<lambda>s. rollnumber s = rn) (students st)), st))"

text \<open>\<^verbatim>\<open>INSERT INTO students (name, age, rollnumber, city) VALUES ($1, $2, $3, $4) RETURNING *\<close>.
  The row takes the next \<^verbatim>\<open>id\<close> of the sequence and the clock's time; the sequence moves on
  also when a constraint then refuses the row. The model decides the NOT NULL and UNIQUE
  constraints; a value that a column's type refuses is, for this statement, one of the
  environment's errors.\<close>

definition insert_student ::
  "env \<Rightarrow> string option \<Rightarrow> int option \<Rightarrow> string option \<Rightarrow> string option \<Rightarrow> state
     \<Rightarrow> (dberror + student list) \<times> state" where
  "insert_student e n a r c st =
     (case query_fault e of
        Some err \<Rightarrow> (Inl err, st)
      | None \<Rightarrow>
          (let st1 = st\<lparr>next_id := next_id st + 1\<rparr> in
           case (n, a, r, c) of
             (Some n', Some a', Some r', Some c') \<Rightarrow>
               if r' \<in> rollnumber ` set (students st) then (Inl unique_violation, st1)
               else
                 (let row = \<lparr>id_col = next_id st, name = n', age = a', rollnumber = r',
                             city = c', created_at = now e\<rparr>
                  in (Inr [row], st1\<lparr>students := students st @ [row]\<rparr>))
           | _ \<Rightarrow> (Inl not_null_violation, st1)))"

text \<open>The conversion of a parameter to the type of its column, \<^verbatim>\<open>age INTEGER\<close> and
  \<^verbatim>\<open>name VARCHAR(100)\<close>, \<^verbatim>\<open>city VARCHAR(100)\<close>. NULL converts to NULL. An integer outside
  the 32-bit range is refused with code \<^verbatim>\<open>22003\<close>. A text longer than the column allows is
  refused with code \<^verbatim>\<open>22001\<close>, unless all the characters in excess are spaces, which are
  then cut off.\<close>

definition numeric_value_out_of_range :: dberror where
  "numeric_value_out_of_range = DbError (Some ''22003'') ''integer out of range''"

definition string_data_right_truncation :: dberror where
  "string_data_right_truncation =
     DbError (Some ''22001'') ''value too long for type character varying''"

definition as_integer :: "int option \<Rightarrow> dberror + int option" where
  "as_integer p =
     (case p of
        None \<Rightarrow> Inr None
      | Some v \<Rightarrow>
          if - 2147483648 \<le> v \<and> v \<le> 2147483647 then Inr (Some v)
          else Inl numeric_value_out_of_range)"

definition as_varchar :: "nat \<Rightarrow> string option \<Rightarrow> dberror + string option" where
  "as_varchar n p =
     (case p of
        None \<Rightarrow> Inr None
      | Some s \<Rightarrow>
          if length s \<le> n then Inr (Some s)
          else if set (drop n s) \<subseteq> {CHR '' ''} then Inr (Some (take n s))
          else Inl string_data_right_truncation)"

text \<open>A field of a body whose value, if it has one, the column takes as it is.\<close>

fun fits_integer :: "int field \<Rightarrow> bool" where
  "fits_integer (Val v) = (- 2147483648 \<le> v \<and> v \<le> 2147483647)"
| "fits_integer _ = True"

fun fits_varchar :: "nat \<Rightarrow> string field \<Rightarrow> bool" where
  "fits_varchar n (Val s) = (length s \<le> n)"
| "fits_varchar n _ = True"

text \<open>\<^verbatim>\<open>UPDATE students SET name = COALESCE($1, name), age = COALESCE($2, age),
  city = COALESCE($3, city) WHERE rollnumber = $4 RETURNING *\<close>.
  The parameters are converted before a row is read, \<^verbatim>\<open>$2\<close> when the statement is bound,
  \<^verbatim>\<open>$1\<close> and \<^verbatim>\<open>$3\<close> when it is planned: a refused parameter fails the statement whether
  or not a row matches, and no row is changed.\<close>

definition coalesce :: "'a option \<Rightarrow> 'a \<Rightarrow> 'a" where
  "coalesce p old = (case p of Some v \<Rightarrow> v | None \<Rightarrow> old)"

definition merge_row :: "string option \<Rightarrow> int option \<Rightarrow> string option \<Rightarrow> student \<Rightarrow> student" where
  "merge_row n a c s =
     s\<lparr>name := coalesce n (name s), age := coalesce a (age s), city := coalesce c (city s)\<rparr>"

definition update_student ::
  "env \<Rightarrow> string option \<Rightarrow> int option \<Rightarrow> string option \<Rightarrow> string \<Rightarrow> state
     \<Rightarrow> (dberror + student list) \<times> state" where
  "update_student e n a c rn st =
     (case query_fault e of
        Some err \<Rightarrow> (Inl err, st)
      | None \<Rightarrow>
          (case as_integer a of
             Inl err \<Rightarrow> (Inl err, st)
           | Inr a' \<Rightarrow>
               (case as_varchar 100 n of
                  Inl err \<Rightarrow> (Inl err, st)
                | Inr n' \<Rightarrow>
                    (case as_varchar 100 c of
                       Inl err \<Rightarrow> (Inl err, st)
                     | Inr c' \<Rightarrow>
                         (let rows = map (\<lambda>s. if rollnumber s = rn then merge_row n' a' c' s
                                               else s) (students st)
                          in (Inr (filter (\<lambda>s. rollnumber s = rn) rows),
                              st\<lparr>students := rows\<rparr>))))))"

text \<open>\<^verbatim>\<open>DELETE FROM students WHERE rollnumber = $1 RETURNING *\<close>\<close>

definition delete_student :: "env \<Rightarrow> string \<Rightarrow> state \<Rightarrow> (dberror + student list) \<times> state" where
  "delete_student e rn st =
     (case query_fault e of
        Some err \<Rightarrow> (Inl err, st)
      | None \<Rightarrow>
          (Inr (filter (\<lambda>s. rollnumber s = rn) (students st)),
           st\<lparr>students := filter (\<lambda>s. rollnumber s \<noteq> rn) (students st)\<rparr>))"

section \<open>The responses\<close>

text \<open>The status and the JSON envelope \<^verbatim>\<open>{success, message?, data?, count?}\<close>. The field
  \<^verbatim>\<open>count\<close> is \<open>count_field\<close>. A key whose value is \<^verbatim>\<open>undefined\<close> is not serialised, so
  \<^verbatim>\<open>rows[0]\<close> of an empty result gives no \<^verbatim>\<open>data\<close>.\<close>

datatype payload = One student | Many "student list"

record response =
  status :: nat
  success :: bool
  message :: "string option"
  data :: "payload option"
  count_field :: "nat option"

definition failure :: "nat \<Rightarrow> string \<Rightarrow> response" where
  "failure code' msg =
     \<lparr>status = code', success = False, message = Some msg, data = None, count_field = None\<rparr>"

definition first_row :: "student list \<Rightarrow> payload option" where
  "first_row rows = (case rows of [] \<Rightarrow> None | r # _ \<Rightarrow> Some (One r))"

section \<open>The handlers\<close>

text \<open>\<^verbatim>\<open>app.get("/students")\<close>\<close>

definition get_students :: "env \<Rightarrow> state \<Rightarrow> response \<times> state" where
  "get_students e st =
     (case pool_connect e st of
        Inl err \<Rightarrow> (failure 500 ''Error fetching students'', st)
      | Inr st1 \<Rightarrow>
          (case select_all e st1 of
             (Inl err, st2) \<Rightarrow> (failure 500 ''Error fetching students'', st2)
           | (Inr rows, st2) \<Rightarrow>
               (\<lparr>status = 200, success = True, message = None, data = Some (Many rows),
                 count_field = Some (length rows)\<rparr>,
                release st2)))"

text \<open>\<^verbatim>\<open>app.get("/students/:rollnumber")\<close>\<close>

definition get_student :: "env \<Rightarrow> string \<Rightarrow> state \<Rightarrow> response \<times> state" where
  "get_student e rn st =
     (case pool_connect e st of
        Inl err \<Rightarrow> (failure 500 ''Error fetching student'', st)
      | Inr st1 \<Rightarrow>
          (case select_one e rn st1 of
             (Inl err, st2) \<Rightarrow> (failure 500 ''Error fetching student'', st2)
           | (Inr rows, st2) \<Rightarrow>
               (if length rows = 0 then failure 404 ''Student not found''
                else \<lparr>status = 200, success = True, message = None, data = first_row rows,
                      count_field = None\<rparr>,
                release st2)))"

text \<open>\<^verbatim>\<open>app.post("/students")\<close>: the check of the four fields comes before the pool is
  touched; the \<^verbatim>\<open>catch\<close> branch tells the code \<^verbatim>\<open>23505\<close> from every other error.\<close>

definition create_failure :: "dberror \<Rightarrow> response" where
  "create_failure err =
     (if code err = Some ''23505'' then failure 409 ''Roll number already exists''
      else failure 500 ''Error creating student'')"

definition post_students :: "env \<Rightarrow> body \<Rightarrow> state \<Rightarrow> response \<times> state" where
  "post_students e b st =
     (if falsy_text (b_name b) \<or> falsy_num (b_age b)
         \<or> falsy_text (b_rollnumber b) \<or> falsy_text (b_city b)
      then (failure 400 ''All fields required: name, age, rollnumber, city'', st)
      else
        (case pool_connect e st of
           Inl err \<Rightarrow> (create_failure err, st)
         | Inr st1 \<Rightarrow>
             (case insert_student e (param (b_name b)) (param (b_age b))
                     (param (b_rollnumber b)) (param (b_city b)) st1 of
                (Inl err, st2) \<Rightarrow> (create_failure err, st2)
              | (Inr rows, st2) \<Rightarrow>
                  (\<lparr>status = 201, success = True,
                    message = Some ''Student created successfully'',
                    data = first_row rows, count_field = None\<rparr>,
                   release st2))))"

text \<open>\<^verbatim>\<open>app.put("/students/:rollnumber")\<close>\<close>

definition put_student :: "env \<Rightarrow> string \<Rightarrow> body \<Rightarrow> state \<Rightarrow> response \<times> state" where
  "put_student e rn b st =
     (case pool_connect e st of
        Inl err \<Rightarrow> (failure 500 ''Error updating student'', st)
      | Inr st1 \<Rightarrow>
          (case update_student e (param (b_name b)) (param (b_age b)) (param (b_city b)) rn st1 of
             (Inl err, st2) \<Rightarrow> (failure 500 ''Error updating student'', st2)
           | (Inr rows, st2) \<Rightarrow>
               (if length rows = 0 then failure 404 ''Student not found''
                else \<lparr>status = 200, success = True,
                      message = Some ''Student updated successfully'',
                      data = first_row rows, count_field = None\<rparr>,
                release st2)))"

text \<open>\<^verbatim>\<open>app.delete("/students/:rollnumber")\<close>\<close>

definition delete_handler :: "env \<Rightarrow> string \<Rightarrow> state \<Rightarrow> response \<times> state" where
  "delete_handler e rn st =
     (case pool_connect e st of
        Inl err \<Rightarrow> (failure 500 ''Error deleting student'', st)
      | Inr st1 \<Rightarrow>
          (case delete_student e rn st1 of
             (Inl err, st2) \<Rightarrow> (failure 500 ''Error deleting student'', st2)
           | (Inr rows, st2) \<Rightarrow>
               (if length rows = 0 then failure 404 ''Student not found''
                else \<lparr>status = 200, success = True,
                      message = Some ''Student deleted successfully'',
                      data = first_row rows, count_field = None\<rparr>,
                release st2)))"

section \<open>Start-up\<close>

text \<open>What the process does at start-up, in order: lines written to the console, the
  listener bound by \<^verbatim>\<open>app.listen\<close>, the exit by \<^verbatim>\<open>process.exit\<close>. The pictographs
  that open the messages of the source, and the time printed after \<^verbatim>\<open>Database time:\<close>, are
  left out of the strings.\<close>

datatype event = ConsoleLog string | ConsoleError string | Listen nat | Exit nat

text \<open>\<^verbatim>\<open>connectDB\<close>: every error of the \<^verbatim>\<open>try\<close> block is caught and answered with \<^verbatim>\<open>false\<close>.
  The test query \<^verbatim>\<open>SELECT NOW()\<close> returns one row, the clock's time.\<close>

definition connectDB :: "env \<Rightarrow> state \<Rightarrow> bool \<times> event list \<times> state" where
  "connectDB e st =
     (case pool_connect e st of
        Inl err \<Rightarrow> (False, [ConsoleError (''Database connection error: '' @ err_message err)], st)
      | Inr st1 \<Rightarrow>
          (case query_fault e of
             Some err \<Rightarrow>
               (False,
                [ConsoleLog ''Connected to Neon database successfully!'',
                 ConsoleError (''Database connection error: '' @ err_message err)],
                st1)
           | None \<Rightarrow>
               (True,
                [ConsoleLog ''Connected to Neon database successfully!'',
                 ConsoleLog ''Database time:''],
                release st1)))"

text \<open>\<^verbatim>\<open>initTable\<close>: \<^verbatim>\<open>CREATE TABLE IF NOT EXISTS students (...)\<close> leaves the rows of an
  existing table as they are; a table not yet created is the empty list of rows.\<close>

definition initTable :: "env \<Rightarrow> state \<Rightarrow> event list \<times> state" where
  "initTable e st =
     (case pool_connect e st of
        Inl err \<Rightarrow> ([ConsoleError (''Error creating table: '' @ err_message err)], st)
      | Inr st1 \<Rightarrow>
          (case query_fault e of
             Some err \<Rightarrow> ([ConsoleError (''Error creating table: '' @ err_message err)], st1)
           | None \<Rightarrow> ([ConsoleLog ''Students table ready!''], release st1)))"

text \<open>\<^verbatim>\<open>startServer\<close>: the first environment is that of the connectivity check, the second
  that of \<^verbatim>\<open>initTable\<close>. Nothing runs after \<^verbatim>\<open>process.exit(1)\<close>. Both \<^verbatim>\<open>connectDB\<close> and
  \<^verbatim>\<open>initTable\<close> catch their own errors, so the outer \<^verbatim>\<open>catch\<close> of \<^verbatim>\<open>startServer\<close>, which
  also exits with status 1, has no path leading to it.\<close>

definition listening_banner :: "event list" where
  "listening_banner =
     [ConsoleLog ''Server is listening on port 9000'',
      ConsoleLog ''Visit: http://localhost:9000'',
      ConsoleLog ''API Routes:'',
      ConsoleLog ''   GET    /students'',
      ConsoleLog ''   GET    /students/:rollnumber'',
      ConsoleLog ''   POST   /students'',
      ConsoleLog ''   PUT    /students/:rollnumber'',
      ConsoleLog ''   DELETE /students/:rollnumber'']"

definition startServer :: "env \<Rightarrow> env \<Rightarrow> state \<Rightarrow> event list \<times> state" where
  "startServer e1 e2 st =
     (case connectDB e1 st of
        (connected, log1, st1) \<Rightarrow>
          if connected then
            (case initTable e2 st1 of
               (log2, st2) \<Rightarrow> (log1 @ log2 @ [Listen 9000] @ listening_banner, st2))
          else
            (log1 @ [ConsoleError ''Failed to connect to database. Server not started.'',
                     Exit 1],
             st1))"

section \<open>The store's invariant\<close>

text \<open>The column \<^verbatim>\<open>rollnumber\<close> is declared \<^verbatim>\<open>UNIQUE\<close>: no two rows of a store share one.\<close>

definition unique_rollnumbers :: "state \<Rightarrow> bool" where
  "unique_rollnumbers st = distinct (map rollnumber (students st))"

section \<open>Sample requests and stores\<close>

text \<open>Concrete students, stores, environments and bodies, on which the theorems below
  are instantiated.\<close>

definition asha :: student where
  "asha = \<lparr>id_col = 1, name = ''Asha'', age = 20, rollnumber = ''R1'', city = ''Chennai'',
            created_at = 5\<rparr>"

definition bala :: student where
  "bala = \<lparr>id_col = 2, name = ''Bala'', age = 22, rollnumber = ''R2'', city = ''Madurai'',
            created_at = 6\<rparr>"

definition store_up :: env where
  "store_up = \<lparr>connect_fault = None, query_fault = None, now = 9\<rparr>"

definition store_down :: env where
  "store_down =
     \<lparr>connect_fault = Some (DbError (Some ''ECONNREFUSED'') ''connection refused''),
      query_fault = None, now = 9\<rparr>"

definition no_students :: state where
  "no_students = \<lparr>students = [], next_id = 1, checked_out = 0\<rparr>"

definition one_student :: state where
  "one_student = \<lparr>students = [asha], next_id = 2, checked_out = 0\<rparr>"

definition two_students :: state where
  "two_students = \<lparr>students = [bala, asha], next_id = 3, checked_out = 0\<rparr>"

definition full_body :: body where
  "full_body = \<lparr>b_name = Val ''Asha Two'', b_age = Val 21, b_rollnumber = Val ''R1'',
                 b_city = Val ''Salem''\<rparr>"

definition nameless_body :: body where
  "nameless_body = \<lparr>b_name = Absent, b_age = Val 21, b_rollnumber = Val ''R1'',
                     b_city = Val ''Salem''\<rparr>"

definition city_only :: body where
  "city_only =
     \<lparr>b_name = Absent, b_age = Absent, b_rollnumber = Absent, b_city = Val ''Salem''\<rparr>"

definition big_age_body :: body where
  "big_age_body =
     \<lparr>b_name = Absent, b_age = Val 2147483648, b_rollnumber = Absent, b_city = Absent\<rparr>"

definition empty_body :: body where
  "empty_body =
     \<lparr>b_name = Absent, b_age = Absent, b_rollnumber = Absent, b_city = Absent\<rparr>"

section \<open>Basic facts\<close>

lemma healthyD: "healthy e \<Longrightarrow> connect_fault e = None \<and> query_fault e = None"
  by (simp add: healthy_def)

lemma healthy_store_up: "healthy store_up"
  by (simp add: healthy_def store_up_def)

lemma unhealthy_store_down: "\<not> healthy store_down"
  by (simp add: healthy_def store_down_def)

lemma find_asha: "find (\<lambda>s. rollnumber s = ''R1'') (students two_students) = Some asha"
  by (simp add: two_students_def asha_def bala_def)

lemma unique_two: "unique_rollnumbers two_students"
  by (simp add: unique_rollnumbers_def two_students_def asha_def bala_def)

lemma pool_connect_healthy:
  "connect_fault e = None \<Longrightarrow>
     pool_connect e st = Inr (st\<lparr>checked_out := Suc (checked_out st)\<rparr>)"
  by (simp add: pool_connect_def)

lemma release_connect [simp]:
  "release (st\<lparr>checked_out := Suc (checked_out st)\<rparr>) = st"
  by (simp add: release_def)

lemma release_connect_students [simp]:
  "release (st\<lparr>checked_out := Suc (checked_out st), students := xs\<rparr>) = st\<lparr>students := xs\<rparr>"
  by (simp add: release_def)

lemma first_row_filter:
  "find P xs = Some r \<Longrightarrow> first_row (filter P xs) = Some (One r)"
  by (induction xs) (auto simp: first_row_def split: if_splits)

lemma filter_nonempty_of_find:
  "find P xs = Some r \<Longrightarrow> filter P xs \<noteq> []"
  by (induction xs) (auto split: if_splits)

lemma filter_not_then_is [simp]:
  "filter (\<lambda>s. rollnumber s = rn) (filter (\<lambda>s. rollnumber s \<noteq> rn) xs) = []"
  by (induction xs) simp_all

section \<open>Validation on create\<close>

text \<open>
  Claim C4. A create request in which one of \<^verbatim>\<open>name\<close>, \<^verbatim>\<open>age\<close>, \<^verbatim>\<open>rollnumber\<close>, \<^verbatim>\<open>city\<close> is
  absent or falsy is answered with status 400 and \<^verbatim>\<open>success: false\<close>, whatever the store
  and the pool would have done: the state after the request (the rows, the sequence, the
  pool) is the state before it, so no connection was taken and no row was written.
\<close>

theorem post_students_rejects_missing_field:
  assumes "falsy_text (b_name b) \<or> falsy_num (b_age b)
           \<or> falsy_text (b_rollnumber b) \<or> falsy_text (b_city b)"
  shows "status (fst (post_students e b st)) = 400
         \<and> success (fst (post_students e b st)) = False
         \<and> snd (post_students e b st) = st"
  using assms by (simp add: post_students_def failure_def)

theorem post_students_rejects_missing_field_witness:
  "falsy_text (b_name nameless_body)
   \<and> status (fst (post_students store_up nameless_body one_student)) = 400
   \<and> success (fst (post_students store_up nameless_body one_student)) = False
   \<and> snd (post_students store_up nameless_body one_student) = one_student"
proof -
  have h: "falsy_text (b_name nameless_body)"
    by (simp add: nameless_body_def)
  then have "falsy_text (b_name nameless_body) \<or> falsy_num (b_age nameless_body)
             \<or> falsy_text (b_rollnumber nameless_body) \<or> falsy_text (b_city nameless_body)"
    by simp
  from post_students_rejects_missing_field [OF this, of store_up one_student] h
  show ?thesis by simp
qed

section \<open>Duplicate rollnumber on create\<close>

text \<open>
  Claim C1, as stated, fails: a create request whose rollnumber is already stored is not
  always answered with 409. The body \<open>nameless_body\<close> carries the stored rollnumber
  \<^verbatim>\<open>R1\<close> and no \<^verbatim>\<open>name\<close>; the check of the four fields runs first and answers 400.
\<close>

theorem post_students_duplicate_counterexample:
  "b_rollnumber nameless_body = Val ''R1''
   \<and> ''R1'' \<in> rollnumber ` set (students one_student)
   \<and> status (fst (post_students store_up nameless_body one_student)) = 400
   \<and> status (fst (post_students store_up nameless_body one_student)) \<noteq> 409"
  by (simp add: nameless_body_def one_student_def asha_def post_students_def failure_def)

lemma insert_student_duplicate:
  assumes "query_fault e = None" and "r \<in> rollnumber ` set (students st)"
  shows "insert_student e (Some n) (Some a) (Some r) (Some c) st
         = (Inl unique_violation, st\<lparr>next_id := next_id st + 1\<rparr>)"
  using assms by (simp add: insert_student_def Let_def)

text \<open>
  Claim C1, amended. A create request whose four fields are all present and truthy and
  whose rollnumber is already stored, served by a store that raises no other error
  (a connection is obtained, the statement reaches the unique constraint), is answered
  with status 409 and \<^verbatim>\<open>success: false\<close>, and the rows of the table are the rows before
  the request.
\<close>

theorem post_students_duplicate_conflict:
  assumes "healthy e"
    and "\<not> falsy_text (b_name b)" and "\<not> falsy_num (b_age b)"
    and "\<not> falsy_text (b_rollnumber b)" and "\<not> falsy_text (b_city b)"
    and "b_rollnumber b = Val r" and "r \<in> rollnumber ` set (students st)"
  shows "status (fst (post_students e b st)) = 409
         \<and> success (fst (post_students e b st)) = False
         \<and> students (snd (post_students e b st)) = students st"
proof -
  obtain n where n: "b_name b = Val n"
    using assms(2) by (cases "b_name b") simp_all
  obtain a where a: "b_age b = Val a"
    using assms(3) by (cases "b_age b") simp_all
  obtain c where c: "b_city b = Val c"
    using assms(5) by (cases "b_city b") simp_all
  have q: "query_fault e = None" and k: "connect_fault e = None"
    using healthyD [OF assms(1)] by simp_all
  have i: "insert_student e (Some n) (Some a) (Some r) (Some c)
             (st\<lparr>checked_out := Suc (checked_out st)\<rparr>)
           = (Inl unique_violation,
              st\<lparr>checked_out := Suc (checked_out st), next_id := next_id st + 1\<rparr>)"
    using insert_student_duplicate [OF q, of r "st\<lparr>checked_out := Suc (checked_out st)\<rparr>" n a c]
      assms(7) by simp
  show ?thesis
    using assms(2-5)
    by (simp add: post_students_def pool_connect_healthy [OF k] n a c assms(6) i
        create_failure_def unique_violation_def failure_def)
qed

theorem post_students_duplicate_conflict_witness:
  "healthy store_up
   \<and> \<not> falsy_text (b_name full_body) \<and> \<not> falsy_num (b_age full_body)
   \<and> \<not> falsy_text (b_rollnumber full_body) \<and> \<not> falsy_text (b_city full_body)
   \<and> b_rollnumber full_body = Val ''R1''
   \<and> ''R1'' \<in> rollnumber ` set (students one_student)
   \<and> status (fst (post_students store_up full_body one_student)) = 409
   \<and> success (fst (post_students store_up full_body one_student)) = False
   \<and> students (snd (post_students store_up full_body one_student)) = students one_student"
proof -
  have h: "\<not> falsy_text (b_name full_body)" "\<not> falsy_num (b_age full_body)"
    "\<not> falsy_text (b_rollnumber full_body)" "\<not> falsy_text (b_city full_body)"
    "b_rollnumber full_body = Val ''R1''"
    by (simp_all add: full_body_def)
  have m: "''R1'' \<in> rollnumber ` set (students one_student)"
    by (simp add: one_student_def asha_def)
  from post_students_duplicate_conflict [OF healthy_store_up h m]
  show ?thesis using healthy_store_up h m by simp
qed

text \<open>Any other error of the store on the same path gets the generic 500.\<close>

lemma create_failure_status:
  "status (create_failure err) = (if code err = Some ''23505'' then 409 else 500)"
  by (simp add: create_failure_def failure_def)

section \<open>Update\<close>

lemma rollnumber_merge_row [simp]: "rollnumber (merge_row n a c s) = rollnumber s"
  by (simp add: merge_row_def)

lemma merge_row_keeps [simp]:
  "name (merge_row None a c s) = name s"
  "age (merge_row n None c s) = age s"
  "city (merge_row n a None s) = city s"
  by (simp_all add: merge_row_def coalesce_def)

lemma coalesce_param:
  "coalesce (param f) old = (case f of Val v \<Rightarrow> v | _ \<Rightarrow> old)"
  by (cases f) (simp_all add: coalesce_def)

lemma find_map_merge:
  "find (\<lambda>s. rollnumber s = rn) xs = Some old \<Longrightarrow>
   find (\<lambda>s. rollnumber s = rn)
     (map (\<lambda>s. if rollnumber s = rn then merge_row n a c s else s) xs)
   = Some (merge_row n a c old)"
  by (induction xs) (auto split: if_splits)

lemma as_integer_fits: "fits_integer f \<Longrightarrow> as_integer (param f) = Inr (param f)"
  by (cases f) (simp_all add: as_integer_def)

lemma as_varchar_fits: "fits_varchar n f \<Longrightarrow> as_varchar n (param f) = Inr (param f)"
  by (cases f) (simp_all add: as_varchar_def)

text \<open>The update of an existing rollnumber, with values the columns take, by a store that
  raises no error: the response carries the merged first match, every matching row is
  merged, the pool is as before.\<close>

lemma put_student_healthy:
  assumes "healthy e"
    and "fits_varchar 100 (b_name b)" and "fits_integer (b_age b)"
    and "fits_varchar 100 (b_city b)"
    and "find (\<lambda>s. rollnumber s = rn) (students st) = Some old"
  shows "put_student e rn b st =
    (\<lparr>status = 200, success = True, message = Some ''Student updated successfully'',
      data = Some (One (merge_row (param (b_name b)) (param (b_age b)) (param (b_city b)) old)),
      count_field = None\<rparr>,
     st\<lparr>students := map (\<lambda>s. if rollnumber s = rn
              then merge_row (param (b_name b)) (param (b_age b)) (param (b_city b)) s else s)
            (students st)\<rparr>)"
proof -
  define rows where "rows = map (\<lambda>s. if rollnumber s = rn
              then merge_row (param (b_name b)) (param (b_age b)) (param (b_city b)) s else s)
            (students st)"
  define hit where "hit = filter (\<lambda>s. rollnumber s = rn) rows"
  define st1 where "st1 = st\<lparr>checked_out := Suc (checked_out st)\<rparr>"
  have f: "find (\<lambda>s. rollnumber s = rn) rows
           = Some (merge_row (param (b_name b)) (param (b_age b)) (param (b_city b)) old)"
    unfolding rows_def using assms(5) by (rule find_map_merge)
  have ne: "length hit \<noteq> 0"
    unfolding hit_def using filter_nonempty_of_find [OF f] by simp
  have fr: "first_row hit
            = Some (One (merge_row (param (b_name b)) (param (b_age b)) (param (b_city b)) old))"
    unfolding hit_def using f by (rule first_row_filter)
  have c: "pool_connect e st = Inr st1"
    unfolding st1_def using healthyD [OF assms(1)] by (simp add: pool_connect_healthy)
  have u: "update_student e (param (b_name b)) (param (b_age b)) (param (b_city b)) rn st1
           = (Inr hit, st1\<lparr>students := rows\<rparr>)"
    using healthyD [OF assms(1)]
    by (simp add: update_student_def as_varchar_fits [OF assms(2)] as_integer_fits [OF assms(3)]
        as_varchar_fits [OF assms(4)] Let_def hit_def rows_def st1_def)
  have r: "release (st1\<lparr>students := rows\<rparr>) = st\<lparr>students := rows\<rparr>"
    by (simp add: st1_def)
  show ?thesis
    using ne fr r by (simp add: put_student_def c u rows_def)
qed

text \<open>An age that the column refuses makes the handler answer 500 on a store that raises no
  error of its own, whether or not the rollnumber is stored; the rows stay as they are.\<close>

lemma put_student_refused_age:
  assumes "healthy e" and "\<not> fits_integer (b_age b)"
  shows "fst (put_student e rn b st) = failure 500 ''Error updating student''"
    and "students (snd (put_student e rn b st)) = students st"
proof -
  obtain v where v: "b_age b = Val v" and r: "\<not> (- 2147483648 \<le> v \<and> v \<le> 2147483647)"
    using assms(2) by (cases "b_age b") simp_all
  have ai: "as_integer (Some v) = Inl numeric_value_out_of_range"
    using r by (auto simp: as_integer_def)
  have u: "update_student e (param (b_name b)) (Some v) (param (b_city b)) rn
             (st\<lparr>checked_out := Suc (checked_out st)\<rparr>)
           = (Inl numeric_value_out_of_range, st\<lparr>checked_out := Suc (checked_out st)\<rparr>)"
    using healthyD [OF assms(1)] ai by (simp add: update_student_def)
  show "fst (put_student e rn b st) = failure 500 ''Error updating student''"
    using healthyD [OF assms(1)] by (simp add: put_student_def pool_connect_healthy v u)
  show "students (snd (put_student e rn b st)) = students st"
    using healthyD [OF assms(1)] by (simp add: put_student_def pool_connect_healthy v u)
qed

text \<open>
  Claim C2, as stated, fails: an update of an existing rollnumber is not always answered
  with 200 and the merged record. The body \<open>big_age_body\<close> carries only the age
  2147483648, which the column \<^verbatim>\<open>age INTEGER\<close> refuses: on the store \<open>two_students\<close>, which
  holds the rollnumber \<^verbatim>\<open>R1\<close> and raises no error of its own, the statement fails, the
  handler answers 500 and the rows are the rows before the request.
\<close>

theorem put_student_merges_counterexample:
  "healthy store_up
   \<and> find (\<lambda>s. rollnumber s = ''R1'') (students two_students) = Some asha
   \<and> fst (put_student store_up ''R1'' big_age_body two_students)
       = failure 500 ''Error updating student''
   \<and> status (fst (put_student store_up ''R1'' big_age_body two_students)) \<noteq> 200
   \<and> students (snd (put_student store_up ''R1'' big_age_body two_students))
       = students two_students"
proof -
  have "put_student store_up ''R1'' big_age_body two_students
        = (failure 500 ''Error updating student'',
           two_students\<lparr>checked_out := checked_out two_students + 1\<rparr>)"
    by (simp add: put_student_def pool_connect_def update_student_def as_integer_def
        store_up_def big_age_body_def)
  then show ?thesis
    using healthy_store_up find_asha by (simp add: failure_def)
qed

text \<open>
  Claim C2, amended. An update of an existing rollnumber whose values the columns take
  as they are (an age within the range of INTEGER, a name and a city of at most 100
  characters), served by the store, is answered with status 200 and the merged record,
  which is also the record then stored under the rollnumber: each of \<^verbatim>\<open>name\<close>, \<^verbatim>\<open>age\<close>,
  \<^verbatim>\<open>city\<close> has the body's value where the body gives one and the stored value where the
  field is omitted (or \<^verbatim>\<open>null\<close>); \<^verbatim>\<open>id\<close>, \<^verbatim>\<open>rollnumber\<close> and \<^verbatim>\<open>created_at\<close> are the stored ones.
  With only \<^verbatim>\<open>city\<close> in the body, \<^verbatim>\<open>name\<close> and \<^verbatim>\<open>age\<close> are therefore unchanged.
\<close>

theorem put_student_merges:
  assumes "healthy e"
    and "fits_varchar 100 (b_name b)" and "fits_integer (b_age b)"
    and "fits_varchar 100 (b_city b)"
    and "find (\<lambda>s. rollnumber s = rn) (students st) = Some old"
  shows "\<exists>new. fst (put_student e rn b st) =
            \<lparr>status = 200, success = True, message = Some ''Student updated successfully'',
             data = Some (One new), count_field = None\<rparr>
         \<and> find (\<lambda>s. rollnumber s = rn) (students (snd (put_student e rn b st))) = Some new
         \<and> name new = (case b_name b of Val v \<Rightarrow> v | _ \<Rightarrow> name old)
         \<and> age new = (case b_age b of Val v \<Rightarrow> v | _ \<Rightarrow> age old)
         \<and> city new = (case b_city b of Val v \<Rightarrow> v | _ \<Rightarrow> city old)
         \<and> id_col new = id_col old \<and> rollnumber new = rollnumber old
         \<and> created_at new = created_at old"
proof -
  let ?new = "merge_row (param (b_name b)) (param (b_age b)) (param (b_city b)) old"
  have p: "put_student e rn b st =
    (\<lparr>status = 200, success = True, message = Some ''Student updated successfully'',
      data = Some (One ?new), count_field = None\<rparr>,
     st\<lparr>students := map (\<lambda>s. if rollnumber s = rn
              then merge_row (param (b_name b)) (param (b_age b)) (param (b_city b)) s else s)
            (students st)\<rparr>)"
    using assms by (rule put_student_healthy)
  have f: "find (\<lambda>s. rollnumber s = rn) (students (snd (put_student e rn b st))) = Some ?new"
    using find_map_merge [OF assms(5)] by (simp add: p)
  have n: "name ?new = (case b_name b of Val v \<Rightarrow> v | _ \<Rightarrow> name old)"
    by (simp add: merge_row_def coalesce_param)
  have a: "age ?new = (case b_age b of Val v \<Rightarrow> v | _ \<Rightarrow> age old)"
    by (simp add: merge_row_def coalesce_param)
  have c: "city ?new = (case b_city b of Val v \<Rightarrow> v | _ \<Rightarrow> city old)"
    by (simp add: merge_row_def coalesce_param)
  have k: "id_col ?new = id_col old \<and> rollnumber ?new = rollnumber old
           \<and> created_at ?new = created_at old"
    by (simp add: merge_row_def)
  show ?thesis
    using p f n a c k by (intro exI [of _ ?new]) simp
qed

theorem put_student_merges_witness:
  "healthy store_up
   \<and> fits_varchar 100 (b_name city_only) \<and> fits_integer (b_age city_only)
   \<and> fits_varchar 100 (b_city city_only)
   \<and> find (\<lambda>s. rollnumber s = ''R1'') (students two_students) = Some asha
   \<and> fst (put_student store_up ''R1'' city_only two_students) =
        \<lparr>status = 200, success = True, message = Some ''Student updated successfully'',
         data = Some (One (asha\<lparr>city := ''Salem''\<rparr>)), count_field = None\<rparr>
   \<and> students (snd (put_student store_up ''R1'' city_only two_students))
       = [bala, asha\<lparr>city := ''Salem''\<rparr>]"
proof -
  have fit: "fits_varchar 100 (b_name city_only)" "fits_integer (b_age city_only)"
    "fits_varchar 100 (b_city city_only)"
    by (simp_all add: city_only_def)
  obtain new where
    r: "fst (put_student store_up ''R1'' city_only two_students) =
          \<lparr>status = 200, success = True, message = Some ''Student updated successfully'',
           data = Some (One new), count_field = None\<rparr>"
    and f: "find (\<lambda>s. rollnumber s = ''R1'')
              (students (snd (put_student store_up ''R1'' city_only two_students))) = Some new"
    and n: "name new = (case b_name city_only of Val v \<Rightarrow> v | _ \<Rightarrow> name asha)"
    and a: "age new = (case b_age city_only of Val v \<Rightarrow> v | _ \<Rightarrow> age asha)"
    and c: "city new = (case b_city city_only of Val v \<Rightarrow> v | _ \<Rightarrow> city asha)"
    and k: "id_col new = id_col asha" "rollnumber new = rollnumber asha"
           "created_at new = created_at asha"
    using put_student_merges [OF healthy_store_up fit find_asha] by blast
  have "new = asha\<lparr>city := ''Salem''\<rparr>"
    using n a c k by (simp add: city_only_def)
  moreover have "students (snd (put_student store_up ''R1'' city_only two_students))
       = [bala, asha\<lparr>city := ''Salem''\<rparr>]"
    using put_student_healthy [OF healthy_store_up fit find_asha]
    by (simp add: two_students_def city_only_def asha_def bala_def merge_row_def coalesce_def)
  ultimately show ?thesis
    using r healthy_store_up fit find_asha by simp
qed

text \<open>
  Claim C8. An update of an existing rollnumber with none of \<^verbatim>\<open>name\<close>, \<^verbatim>\<open>age\<close>, \<^verbatim>\<open>city\<close> in
  the body, served by the store, changes nothing: the response is 200 with the stored
  record, and the state after the request is the state before it.
\<close>

theorem put_student_empty_body_identity:
  assumes "healthy e"
    and "b_name b = Absent" and "b_age b = Absent" and "b_city b = Absent"
    and "find (\<lambda>s. rollnumber s = rn) (students st) = Some old"
  shows "put_student e rn b st =
           (\<lparr>status = 200, success = True, message = Some ''Student updated successfully'',
             data = Some (One old), count_field = None\<rparr>, st)"
proof -
  have m: "\<And>s. merge_row None None None s = s"
    by (simp add: merge_row_def coalesce_def)
  have rows: "map (\<lambda>s. if rollnumber s = rn
              then merge_row (param (b_name b)) (param (b_age b)) (param (b_city b)) s else s)
            (students st) = students st"
    by (simp add: assms(2-4) m cong: if_cong)
  have fit: "fits_varchar 100 (b_name b)" "fits_integer (b_age b)" "fits_varchar 100 (b_city b)"
    by (simp_all add: assms(2-4))
  have "put_student e rn b st =
    (\<lparr>status = 200, success = True, message = Some ''Student updated successfully'',
      data = Some (One (merge_row (param (b_name b)) (param (b_age b)) (param (b_city b)) old)),
      count_field = None\<rparr>,
     st\<lparr>students := students st\<rparr>)"
    using put_student_healthy [OF assms(1) fit assms(5)] by (simp only: rows)
  then show ?thesis
    by (simp add: assms(2-4) m)
qed

theorem put_student_empty_body_identity_witness:
  "healthy store_up
   \<and> b_name empty_body = Absent \<and> b_age empty_body = Absent \<and> b_city empty_body = Absent
   \<and> find (\<lambda>s. rollnumber s = ''R1'') (students two_students) = Some asha
   \<and> put_student store_up ''R1'' empty_body two_students =
        (\<lparr>status = 200, success = True, message = Some ''Student updated successfully'',
          data = Some (One asha), count_field = None\<rparr>, two_students)"
proof -
  have b: "b_name empty_body = Absent" "b_age empty_body = Absent" "b_city empty_body = Absent"
    by (simp_all add: empty_body_def)
  from put_student_empty_body_identity [OF healthy_store_up b find_asha]
  show ?thesis using healthy_store_up b find_asha by simp
qed

text \<open>The handler reads the body only through the parameters it sends.\<close>

lemma put_student_param_only:
  assumes "param (b_name b) = param (b_name b')" and "param (b_age b) = param (b_age b')"
    and "param (b_city b) = param (b_city b')"
  shows "put_student e rn b st = put_student e rn b' st"
  by (simp add: put_student_def assms cong: sum.case_cong)

lemma update_student_keeps:
  "map rollnumber (students (snd (update_student e n a c rn st))) = map rollnumber (students st)"
  "n = None \<Longrightarrow> map name (students (snd (update_student e n a c rn st))) = map name (students st)"
  "a = None \<Longrightarrow> map age (students (snd (update_student e n a c rn st))) = map age (students st)"
  "c = None \<Longrightarrow> map city (students (snd (update_student e n a c rn st))) = map city (students st)"
  by (auto simp: update_student_def as_integer_def as_varchar_def Let_def
      split: option.splits sum.splits if_splits)

lemma put_student_students:
  "students (snd (put_student e rn b st)) = students st
   \<or> students (snd (put_student e rn b st)) =
     students (snd (update_student e (param (b_name b)) (param (b_age b)) (param (b_city b)) rn st))"
  by (auto simp: put_student_def pool_connect_def update_student_def release_def Let_def
      split: option.splits sum.splits)

lemma put_student_keeps:
  "param (b_name b) = None \<Longrightarrow>
     map name (students (snd (put_student e rn b st))) = map name (students st)"
  "param (b_age b) = None \<Longrightarrow>
     map age (students (snd (put_student e rn b st))) = map age (students st)"
  "param (b_city b) = None \<Longrightarrow>
     map city (students (snd (put_student e rn b st))) = map city (students st)"
  using put_student_students [of e rn b st] update_student_keeps(2-4)
  by metis+

text \<open>
  Claim C9. In an update, a field of the body that is \<^verbatim>\<open>null\<close> does what the absent field
  does: for every environment, rollnumber, body and state, the response and the state
  after the request are the same whether \<^verbatim>\<open>name\<close> (or \<^verbatim>\<open>age\<close>, or \<^verbatim>\<open>city\<close>) is \<^verbatim>\<open>null\<close> or
  absent, and with the field \<^verbatim>\<open>null\<close> the column keeps, row by row, the values it had. A
  row's \<^verbatim>\<open>name\<close>, \<^verbatim>\<open>age\<close> and \<^verbatim>\<open>city\<close> are never NULL: the columns hold values only.
\<close>

theorem put_student_null_as_absent:
  "put_student e rn (b\<lparr>b_name := Null\<rparr>) st = put_student e rn (b\<lparr>b_name := Absent\<rparr>) st
   \<and> put_student e rn (b\<lparr>b_age := Null\<rparr>) st = put_student e rn (b\<lparr>b_age := Absent\<rparr>) st
   \<and> put_student e rn (b\<lparr>b_city := Null\<rparr>) st = put_student e rn (b\<lparr>b_city := Absent\<rparr>) st
   \<and> map name (students (snd (put_student e rn (b\<lparr>b_name := Null\<rparr>) st)))
       = map name (students st)
   \<and> map age (students (snd (put_student e rn (b\<lparr>b_age := Null\<rparr>) st)))
       = map age (students st)
   \<and> map city (students (snd (put_student e rn (b\<lparr>b_city := Null\<rparr>) st)))
       = map city (students st)"
proof -
  have 1: "put_student e rn (b\<lparr>b_name := Null\<rparr>) st
           = put_student e rn (b\<lparr>b_name := Absent\<rparr>) st"
    by (rule put_student_param_only) simp_all
  have 2: "put_student e rn (b\<lparr>b_age := Null\<rparr>) st
           = put_student e rn (b\<lparr>b_age := Absent\<rparr>) st"
    by (rule put_student_param_only) simp_all
  have 3: "put_student e rn (b\<lparr>b_city := Null\<rparr>) st
           = put_student e rn (b\<lparr>b_city := Absent\<rparr>) st"
    by (rule put_student_param_only) simp_all
  have 4: "map name (students (snd (put_student e rn (b\<lparr>b_name := Null\<rparr>) st)))
           = map name (students st)"
    by (simp add: put_student_keeps)
  have 5: "map age (students (snd (put_student e rn (b\<lparr>b_age := Null\<rparr>) st)))
           = map age (students st)"
    by (simp add: put_student_keeps)
  have 6: "map city (students (snd (put_student e rn (b\<lparr>b_city := Null\<rparr>) st)))
           = map city (students st)"
    by (simp add: put_student_keeps)
  from 1 2 3 4 5 6 show ?thesis by blast
qed

section \<open>Listing\<close>

lemma get_students_healthy:
  assumes "healthy e"
  shows "get_students e st =
     (\<lparr>status = 200, success = True, message = None,
       data = Some (Many (sort_key rollnumber (students st))),
       count_field = Some (length (students st))\<rparr>, st)"
  using healthyD [OF assms]
  by (simp add: get_students_def pool_connect_healthy select_all_def)

text \<open>
  Claim C5. For a store whose rollnumbers are unique, as the table's constraint makes
  them, and a request the store serves, \<^verbatim>\<open>GET /students\<close> answers 200 with an array that
  holds exactly the stored students, in ascending and duplicate-free order of rollnumber,
  and with its length as \<^verbatim>\<open>count\<close>. A store \<open>st'\<close> that holds the same students in another
  insertion order gets the same response. The order of rollnumbers is the lexicographic
  order of their characters.
\<close>

theorem get_students_sorted:
  assumes "healthy e"
    and "unique_rollnumbers st"
    and "mset (students st') = mset (students st)"
  shows "\<exists>rows. fst (get_students e st) =
            \<lparr>status = 200, success = True, message = None, data = Some (Many rows),
             count_field = Some (length rows)\<rparr>
         \<and> mset rows = mset (students st)
         \<and> sorted (map rollnumber rows) \<and> distinct (map rollnumber rows)
         \<and> fst (get_students e st') = fst (get_students e st)"
proof -
  let ?rows = "sort_key rollnumber (students st)"
  have u: "distinct (map rollnumber (students st))"
    using assms(2) by (simp add: unique_rollnumbers_def)
  have inj: "inj_on rollnumber (set (students st'))"
    using u assms(3) by (metis distinct_map mset_eq_setD)
  have same: "sort_key rollnumber (students st') = ?rows"
    using assms(3) inj by (rule sort_key_eq_sort_key)
  have len: "length (students st') = length (students st)"
    using assms(3) by (rule mset_eq_length)
  have d: "distinct (map rollnumber ?rows)"
    using u by (metis distinct_map distinct_sort set_sort)
  have "fst (get_students e st') = fst (get_students e st)"
    by (simp add: get_students_healthy [OF assms(1)] same len)
  then show ?thesis
    using d by (intro exI [of _ ?rows]) (simp add: get_students_healthy [OF assms(1)])
qed

theorem get_students_sorted_witness:
  "healthy store_up
   \<and> unique_rollnumbers two_students
   \<and> mset (students (two_students\<lparr>students := [asha, bala]\<rparr>)) = mset (students two_students)
   \<and> fst (get_students store_up two_students) =
        \<lparr>status = 200, success = True, message = None, data = Some (Many [asha, bala]),
         count_field = Some 2\<rparr>
   \<and> fst (get_students store_up (two_students\<lparr>students := [asha, bala]\<rparr>))
       = fst (get_students store_up two_students)"
proof -
  have m: "mset (students (two_students\<lparr>students := [asha, bala]\<rparr>))
           = mset (students two_students)"
    by (simp add: two_students_def)
  obtain rows where
    r: "fst (get_students store_up two_students) =
            \<lparr>status = 200, success = True, message = None, data = Some (Many rows),
             count_field = Some (length rows)\<rparr>"
    and i: "fst (get_students store_up (two_students\<lparr>students := [asha, bala]\<rparr>))
       = fst (get_students store_up two_students)"
    using get_students_sorted [OF healthy_store_up unique_two m] by blast
  have "sort_key rollnumber (students two_students) = [asha, bala]"
    by (simp add: two_students_def asha_def bala_def less_eq_char_def less_char_def)
  then have "rows = [asha, bala]"
    using r by (simp add: get_students_healthy [OF healthy_store_up])
  then show ?thesis
    using healthy_store_up unique_two m r i by simp
qed

text \<open>
  Claim C10. A successful response of \<^verbatim>\<open>GET /students\<close> has status 200, an array as
  \<^verbatim>\<open>data\<close> and the length of that array as \<^verbatim>\<open>count\<close>. An empty store that serves the
  request answers 200 with the empty array and \<^verbatim>\<open>count\<close> 0: the handler has no 404.
\<close>

theorem get_students_count:
  "(success (fst (get_students e st)) \<longrightarrow>
      status (fst (get_students e st)) = 200
      \<and> (\<exists>rows. data (fst (get_students e st)) = Some (Many rows)
                \<and> count_field (fst (get_students e st)) = Some (length rows)))
   \<and> (healthy e \<and> students st = [] \<longrightarrow>
        fst (get_students e st) =
          \<lparr>status = 200, success = True, message = None, data = Some (Many []),
           count_field = Some 0\<rparr>)"
  by (auto simp: get_students_def pool_connect_def select_all_def healthy_def failure_def
      split: option.splits)

theorem get_students_count_witness:
  "success (fst (get_students store_up no_students))
   \<and> healthy store_up \<and> students no_students = []
   \<and> status (fst (get_students store_up no_students)) = 200
   \<and> data (fst (get_students store_up no_students)) = Some (Many [])
   \<and> count_field (fst (get_students store_up no_students)) = Some 0"
proof -
  have e: "students no_students = []"
    by (simp add: no_students_def)
  have s: "success (fst (get_students store_up no_students))"
    by (simp add: get_students_healthy [OF healthy_store_up])
  from get_students_count [of store_up no_students] s healthy_store_up e
  show ?thesis by simp
qed

lemma get_students_never_404: "status (fst (get_students e st)) \<in> {200, 500}"
  by (simp add: get_students_def pool_connect_def select_all_def failure_def
      split: option.splits)

section \<open>Delete\<close>

lemma delete_handler_healthy:
  assumes "healthy e"
  shows "delete_handler e rn st =
     (if filter (\<lambda>s. rollnumber s = rn) (students st) = []
      then failure 404 ''Student not found''
      else \<lparr>status = 200, success = True, message = Some ''Student deleted successfully'',
            data = first_row (filter (\<lambda>s. rollnumber s = rn) (students st)),
            count_field = None\<rparr>,
      st\<lparr>students := filter (\<lambda>s. rollnumber s \<noteq> rn) (students st)\<rparr>)"
  using healthyD [OF assms]
  by (simp add: delete_handler_def pool_connect_healthy delete_student_def)

lemma get_student_healthy:
  assumes "healthy e"
  shows "get_student e rn st =
     (if filter (\<lambda>s. rollnumber s = rn) (students st) = []
      then failure 404 ''Student not found''
      else \<lparr>status = 200, success = True, message = None,
            data = first_row (filter (\<lambda>s. rollnumber s = rn) (students st)),
            count_field = None\<rparr>,
      st)"
  using healthyD [OF assms]
  by (simp add: get_student_def pool_connect_healthy select_one_def)

text \<open>
  Claim C6. Three requests in a row, each served by the store, on a rollnumber whose
  stored record is \<open>old\<close>: the delete answers 200 with \<open>old\<close> as \<^verbatim>\<open>data\<close>; the fetch of the
  same rollnumber then answers 404 and changes nothing; the second delete answers 404,
  as a response of the handler, and changes nothing.
\<close>

theorem delete_then_not_found:
  assumes "healthy e1" and "healthy e2" and "healthy e3"
    and "find (\<lambda>s. rollnumber s = rn) (students st) = Some old"
  shows "fst (delete_handler e1 rn st) =
           \<lparr>status = 200, success = True, message = Some ''Student deleted successfully'',
            data = Some (One old), count_field = None\<rparr>
         \<and> status (fst (get_student e2 rn (snd (delete_handler e1 rn st)))) = 404
         \<and> success (fst (get_student e2 rn (snd (delete_handler e1 rn st)))) = False
         \<and> snd (get_student e2 rn (snd (delete_handler e1 rn st)))
             = snd (delete_handler e1 rn st)
         \<and> status (fst (delete_handler e3 rn (snd (delete_handler e1 rn st)))) = 404
         \<and> success (fst (delete_handler e3 rn (snd (delete_handler e1 rn st)))) = False
         \<and> snd (delete_handler e3 rn (snd (delete_handler e1 rn st)))
             = snd (delete_handler e1 rn st)"
proof -
  let ?st1 = "st\<lparr>students := filter (\<lambda>s. rollnumber s \<noteq> rn) (students st)\<rparr>"
  have ne: "filter (\<lambda>s. rollnumber s = rn) (students st) \<noteq> []"
    using assms(4) by (rule filter_nonempty_of_find)
  have fr: "first_row (filter (\<lambda>s. rollnumber s = rn) (students st)) = Some (One old)"
    using assms(4) by (rule first_row_filter)
  have d1: "delete_handler e1 rn st =
     (\<lparr>status = 200, success = True, message = Some ''Student deleted successfully'',
       data = Some (One old), count_field = None\<rparr>, ?st1)"
    using ne fr by (simp add: delete_handler_healthy [OF assms(1)])
  have g: "get_student e2 rn ?st1 = (failure 404 ''Student not found'', ?st1)"
    by (simp add: get_student_healthy [OF assms(2)])
  have d2: "delete_handler e3 rn ?st1 = (failure 404 ''Student not found'', ?st1)"
    by (simp add: delete_handler_healthy [OF assms(3)])
  show ?thesis
    by (simp add: d1 g d2 failure_def)
qed

theorem delete_then_not_found_witness:
  "healthy store_up
   \<and> find (\<lambda>s. rollnumber s = ''R1'') (students two_students) = Some asha
   \<and> fst (delete_handler store_up ''R1'' two_students) =
           \<lparr>status = 200, success = True, message = Some ''Student deleted successfully'',
            data = Some (One asha), count_field = None\<rparr>
   \<and> status (fst (get_student store_up ''R1''
                (snd (delete_handler store_up ''R1'' two_students)))) = 404
   \<and> status (fst (delete_handler store_up ''R1''
                (snd (delete_handler store_up ''R1'' two_students)))) = 404"
  using delete_then_not_found [OF healthy_store_up healthy_store_up healthy_store_up find_asha]
    healthy_store_up find_asha
  by simp

section \<open>The pooled connection\<close>

text \<open>Every handler calls \<^verbatim>\<open>client.release()\<close> after the query has returned, inside the
  \<^verbatim>\<open>try\<close> block, and none has a \<^verbatim>\<open>finally\<close>. A response with \<^verbatim>\<open>success: true\<close> leaves the
  pool as it was.\<close>

lemma success_releases_connection:
  "success (fst (get_students e st)) \<Longrightarrow>
     checked_out (snd (get_students e st)) = checked_out st"
  "success (fst (get_student e rn st)) \<Longrightarrow>
     checked_out (snd (get_student e rn st)) = checked_out st"
  "success (fst (post_students e b st)) \<Longrightarrow>
     checked_out (snd (post_students e b st)) = checked_out st"
  "success (fst (put_student e rn b st)) \<Longrightarrow>
     checked_out (snd (put_student e rn b st)) = checked_out st"
  "success (fst (delete_handler e rn st)) \<Longrightarrow>
     checked_out (snd (delete_handler e rn st)) = checked_out st"
  by (auto simp: get_students_def get_student_def post_students_def put_student_def
      delete_handler_def pool_connect_def select_all_def select_one_def insert_student_def
      update_student_def delete_student_def release_def failure_def create_failure_def Let_def
      split: option.splits sum.splits if_splits)

text \<open>When the connection is obtained and the query then raises, the handler returns with
  the connection still checked out.\<close>

lemma query_error_keeps_connection:
  assumes "connect_fault e = None" and "query_fault e = Some err"
  shows "checked_out (snd (get_students e st)) = checked_out st + 1"
    and "checked_out (snd (get_student e rn st)) = checked_out st + 1"
    and "checked_out (snd (put_student e rn b st)) = checked_out st + 1"
    and "checked_out (snd (delete_handler e rn st)) = checked_out st + 1"
  using assms
  by (simp_all add: get_students_def get_student_def put_student_def delete_handler_def
      pool_connect_def select_all_def select_one_def update_student_def delete_student_def)

text \<open>
  Claim C3 says that the connection a handler acquired is back in the pool on every exit
  path, the path where the query raises included. The create request \<open>full_body\<close> on the
  store \<open>one_student\<close>, whose rollnumber \<^verbatim>\<open>R1\<close> is already stored, makes the insert raise
  the unique violation: the handler answers 409 and returns with one connection checked
  out of a pool that had none checked out before the request.
\<close>

theorem post_students_duplicate_keeps_connection:
  "status (fst (post_students store_up full_body one_student)) = 409
   \<and> checked_out one_student = 0
   \<and> checked_out (snd (post_students store_up full_body one_student)) = 1"
  by (simp add: post_students_def pool_connect_def insert_student_def store_up_def
      full_body_def one_student_def asha_def create_failure_def unique_violation_def
      failure_def Let_def)

section \<open>The failed connectivity check\<close>

lemma connectDB_result: "fst (connectDB e st) = healthy e"
  by (simp add: connectDB_def pool_connect_def healthy_def split: option.splits)

text \<open>
  Claim C7. When the connectivity check fails, because \<^verbatim>\<open>pool.connect()\<close> or the test query
  rejects, \<^verbatim>\<open>connectDB\<close> returns \<^verbatim>\<open>false\<close>, and \<^verbatim>\<open>startServer\<close> does what the check logged,
  logs that the server is not started and exits with status 1: no listener is bound at
  any point, and the exit is the last thing the process does.
\<close>

theorem startServer_exits_before_listening:
  assumes "\<not> healthy e1"
  shows "fst (connectDB e1 st) = False
         \<and> fst (startServer e1 e2 st) =
             fst (snd (connectDB e1 st))
               @ [ConsoleError ''Failed to connect to database. Server not started.'', Exit 1]
         \<and> (\<forall>port. Listen port \<notin> set (fst (startServer e1 e2 st)))
         \<and> last (fst (startServer e1 e2 st)) = Exit 1"
proof -
  have c: "fst (connectDB e1 st) = False"
    using assms by (simp add: connectDB_result)
  have l: "\<forall>port. Listen port \<notin> set (fst (snd (connectDB e1 st)))"
    by (simp add: connectDB_def pool_connect_def split: option.splits)
  have s: "fst (startServer e1 e2 st) =
             fst (snd (connectDB e1 st))
               @ [ConsoleError ''Failed to connect to database. Server not started.'', Exit 1]"
  proof -
    obtain ok log1 st1 where cd: "connectDB e1 st = (ok, log1, st1)"
      by (cases "connectDB e1 st") auto
    then have "ok = False"
      using c by simp
    then show ?thesis
      by (simp add: startServer_def cd)
  qed
  show ?thesis
    using c l by (simp add: s)
qed

theorem startServer_exits_before_listening_witness:
  "\<not> healthy store_down
   \<and> fst (connectDB store_down no_students) = False
   \<and> fst (startServer store_down store_up no_students) =
        [ConsoleError ''Database connection error: connection refused'',
         ConsoleError ''Failed to connect to database. Server not started.'', Exit 1]"
proof -
  have "fst (snd (connectDB store_down no_students))
        = [ConsoleError ''Database connection error: connection refused'']"
    by (simp add: connectDB_def pool_connect_def store_down_def)
  then show ?thesis
    using startServer_exits_before_listening [OF unhealthy_store_down, of no_students store_up]
      unhealthy_store_down
    by simp
qed

text \<open>When the check succeeds the listener is bound on port 9000 and the process does not
  exit, whatever \<^verbatim>\<open>initTable\<close> met.\<close>

lemma startServer_listens_when_connected:
  assumes "healthy e1"
  shows "Listen 9000 \<in> set (fst (startServer e1 e2 st))"
    and "\<forall>code'. Exit code' \<notin> set (fst (startServer e1 e2 st))"
  using healthyD [OF assms]
  by (auto simp: startServer_def connectDB_def initTable_def pool_connect_def
      listening_banner_def split: option.splits prod.splits)

section \<open>Unique rollnumbers are kept\<close>

lemma unique_rollnumbers_empty: "students st = [] \<Longrightarrow> unique_rollnumbers st"
  by (simp add: unique_rollnumbers_def)

lemma handlers_keep_unique_rollnumbers:
  assumes "unique_rollnumbers st"
  shows "unique_rollnumbers (snd (get_students e st))"
    and "unique_rollnumbers (snd (get_student e rn st))"
    and "unique_rollnumbers (snd (post_students e b st))"
    and "unique_rollnumbers (snd (put_student e rn b st))"
    and "unique_rollnumbers (snd (delete_handler e rn st))"
proof -
  show "unique_rollnumbers (snd (get_students e st))"
    using assms
    by (auto simp: unique_rollnumbers_def get_students_def pool_connect_def select_all_def
        release_def split: option.splits)
  show "unique_rollnumbers (snd (get_student e rn st))"
    using assms
    by (auto simp: unique_rollnumbers_def get_student_def pool_connect_def select_one_def
        release_def split: option.splits)
  show "unique_rollnumbers (snd (post_students e b st))"
    using assms
    by (auto simp: unique_rollnumbers_def post_students_def pool_connect_def insert_student_def
        release_def Let_def split: option.splits)
  show "unique_rollnumbers (snd (put_student e rn b st))"
    using assms put_student_students [of e rn b st] update_student_keeps(1)
    by (metis unique_rollnumbers_def)
  show "unique_rollnumbers (snd (delete_handler e rn st))"
    using assms
    by (auto simp: unique_rollnumbers_def delete_handler_def pool_connect_def delete_student_def
        release_def distinct_map_filter split: option.splits)
qed

end
